theory Spec2Isabelle
  imports Complex_Main "HOL-Library.Sublist"
begin

section \<open>JavaScript values shared by the components\<close>

text \<open>
  A rejected promise or a thrown exception carries an Error object; the handlers of
  this application only ever read its \<^verbatim>\<open>message\<close>.
\<close>

datatype thrown = JsError (message: string)

text \<open>
  \<^verbatim>\<open>a || b\<close> on strings: the empty string is falsy. The optional variant covers a
  property that may be \<^verbatim>\<open>undefined\<close>.
\<close>

definition js_or :: "string \<Rightarrow> string \<Rightarrow> string" where
  "js_or a b = (if a = [] then b else a)"

definition js_or_opt :: "string option \<Rightarrow> string \<Rightarrow> string" where
  "js_or_opt a b = (case a of None \<Rightarrow> b | Some x \<Rightarrow> js_or x b)"

text \<open>String concatenation with a possibly undefined right operand.\<close>

definition js_string_of :: "string option \<Rightarrow> string" where
  "js_string_of t = (case t of None \<Rightarrow> ''undefined'' | Some x \<Rightarrow> x)"

text \<open>\<^verbatim>\<open>Set.prototype.add\<close>: a JavaScript Set keeps insertion order and no duplicates.\<close>

definition set_add :: "'a \<Rightarrow> 'a list \<Rightarrow> 'a list" where
  "set_add x xs = (if x \<in> set xs then xs else xs @ [x])"

section \<open>LiveConversation (AudioVisualizer.tsx, second document)\<close>

subsection \<open>The inbound message\<close>

text \<open>
  The fields of \<^verbatim>\<open>LiveServerMessage\<close> that \<^verbatim>\<open>onmessage\<close> reads. A transcription
  object is \<open>None\<close> when absent and \<open>Some t\<close> when present, \<open>t\<close> being its
  \<^verbatim>\<open>text\<close> property (itself possibly undefined).
\<close>

record inline_data =
  data :: "string option"
  mimeType :: "string option"

record part =
  inlineData :: "inline_data option"
  partText :: "string option"

record content =
  parts :: "part list option"

record server_content =
  outputTranscription :: "string option option"
  inputTranscription :: "string option option"
  turnComplete :: bool
  modelTurn :: "content option"
  interrupted :: bool

record live_server_message =
  serverContent :: "server_content option"

definition msg_outputTranscription :: "live_server_message \<Rightarrow> string option option" where
  "msg_outputTranscription m =
     (case serverContent m of None \<Rightarrow> None | Some sc \<Rightarrow> outputTranscription sc)"

definition msg_inputTranscription :: "live_server_message \<Rightarrow> string option option" where
  "msg_inputTranscription m =
     (case serverContent m of None \<Rightarrow> None | Some sc \<Rightarrow> inputTranscription sc)"

definition msg_turnComplete :: "live_server_message \<Rightarrow> bool" where
  "msg_turnComplete m = (case serverContent m of None \<Rightarrow> False | Some sc \<Rightarrow> turnComplete sc)"

definition msg_interrupted :: "live_server_message \<Rightarrow> bool" where
  "msg_interrupted m = (case serverContent m of None \<Rightarrow> False | Some sc \<Rightarrow> interrupted sc)"

text \<open>
  Line 207: \<^verbatim>\<open>message.serverContent?.modelTurn?.parts[0]?.inlineData?.data\<close>. The chain
  short-circuits on an absent \<^verbatim>\<open>serverContent\<close> or \<^verbatim>\<open>modelTurn\<close>, but \<^verbatim>\<open>parts\<close> is indexed
  without \<^verbatim>\<open>?.\<close>: a model turn without a parts array raises a TypeError.
\<close>

definition base64Audio_of :: "live_server_message \<Rightarrow> thrown + string option" where
  "base64Audio_of m =
     (case serverContent m of
        None \<Rightarrow> Inr None
      | Some sc \<Rightarrow>
          (case modelTurn sc of
             None \<Rightarrow> Inr None
           | Some c \<Rightarrow>
               (case parts c of
                  None \<Rightarrow> Inl (JsError ''TypeError'')
                | Some ps \<Rightarrow>
                    (case ps of
                       [] \<Rightarrow> Inr None
                     | p # _ \<Rightarrow>
                         (case inlineData p of None \<Rightarrow> Inr None | Some b \<Rightarrow> Inr (data b))))))"

subsection \<open>The component's state and the browser objects it drives\<close>

text \<open>
  Audio contexts, media-stream tracks, the session and buffer source nodes are browser
  objects; each is a natural number here, and what the component does to them (stop,
  close, start) is recorded beside the component's own state and refs. Playback time is
  a linearly ordered type with an addition.
  \<^verbatim>\<open>setTimeout\<close> is a list of pending callbacks with their due times in milliseconds.
  \<^verbatim>\<open>onmessage\<close> is an async function: an invocation that has reached
  \<^verbatim>\<open>await decodeAudioData\<close> (line 213) is suspended there, and \<open>pending\<close> lists the
  suspended invocations with what each still holds: its payload, its message and the
  clock it read on line 210.
\<close>

record transcript =
  user :: string
  model :: string

datatype timer_action = ClearTranscription

text \<open>
  A started buffer: \<open>clockThen\<close> is \<^verbatim>\<open>ctx.currentTime\<close> as its invocation read it on line
  210, \<open>clockAtStart\<close> is \<^verbatim>\<open>ctx.currentTime\<close> when \<^verbatim>\<open>source.start\<close> is called on line 228.
\<close>

record 't scheduled_source =
  sourceNode :: nat
  startWhen :: 't
  bufferDuration :: 't
  clockThen :: 't
  clockAtStart :: 't

record 't pending_decode =
  payload :: string
  pendingMessage :: live_server_message
  clockRead :: 't

record 't live_conversation =
  isConnected :: bool
  error :: "string option"
  transcription :: transcript
  inputAudioContextRef :: "nat option"
  outputAudioContextRef :: "nat option"
  mediaStreamRef :: "nat list option"
  sessionRef :: "nat option"
  sourcesRef :: "nat list"
  nextStartTimeRef :: 't
  stoppedTracks :: "nat set"
  closedContexts :: "nat set"
  stoppedSources :: "nat set"
  started :: "'t scheduled_source list"
  timeouts :: "(nat \<times> timer_action) list"
  pending :: "'t pending_decode list"

definition initial_live :: "('t::zero) live_conversation" where
  "initial_live =
     \<lparr>isConnected = False, error = None, transcription = \<lparr>user = [], model = []\<rparr>,
      inputAudioContextRef = None, outputAudioContextRef = None, mediaStreamRef = None,
      sessionRef = None, sourcesRef = [], nextStartTimeRef = 0,
      stoppedTracks = {}, closedContexts = {}, stoppedSources = {}, started = [],
      timeouts = [], pending = []\<rparr>"

subsection \<open>cleanup (lines 102-126)\<close>

text \<open>
  \<^verbatim>\<open>track.stop()\<close> and \<^verbatim>\<open>AudioContext.close()\<close> do not throw, and \<^verbatim>\<open>s.stop()\<close> sits in
  a try/catch, so teardown has no throwing branch. The source set is flushed inside the
  guard on the playback context, as in the source. Teardown does not reach an invocation
  of \<^verbatim>\<open>onmessage\<close> suspended at its \<^verbatim>\<open>await\<close>.
\<close>

definition cleanup :: "('t::zero) live_conversation \<Rightarrow> 't live_conversation" where
  "cleanup s =
     (let s1 = (case mediaStreamRef s of
                  None \<Rightarrow> s
                | Some tracks \<Rightarrow>
                    s\<lparr>stoppedTracks := stoppedTracks s \<union> set tracks, mediaStreamRef := None\<rparr>);
          s2 = (case inputAudioContextRef s1 of
                  None \<Rightarrow> s1
                | Some c \<Rightarrow>
                    s1\<lparr>closedContexts := insert c (closedContexts s1),
                       inputAudioContextRef := None\<rparr>);
          s3 = (case outputAudioContextRef s2 of
                  None \<Rightarrow> s2
                | Some c \<Rightarrow>
                    s2\<lparr>stoppedSources := stoppedSources s2 \<union> set (sourcesRef s2),
                       sourcesRef := [],
                       closedContexts := insert c (closedContexts s2),
                       outputAudioContextRef := None\<rparr>)
      in s3\<lparr>sessionRef := None, isConnected := False, nextStartTimeRef := 0\<rparr>)"

subsection \<open>startSession (lines 132-264) and the session callbacks\<close>

text \<open>
  What the browser answers during \<^verbatim>\<open>startSession\<close>: the two context constructors and
  \<^verbatim>\<open>getUserMedia\<close> may throw; \<^verbatim>\<open>ai.live.connect\<close> returns a promise that is stored
  without being awaited. Analyser and gain nodes carry no state any handler reads back.
\<close>

record start_env =
  newInputContext :: "thrown + nat"
  newOutputContext :: "thrown + nat"
  getUserMedia :: "thrown + nat list"
  liveConnect :: nat

text \<open>The catch block of \<^verbatim>\<open>startSession\<close>: surface the message, then tear down.\<close>

definition startSession_catch ::
  "thrown \<Rightarrow> ('t::zero) live_conversation \<Rightarrow> 't live_conversation" where
  "startSession_catch e s =
     cleanup (s\<lparr>error := Some (js_or (message e) ''Failed to start session'')\<rparr>)"

definition startSession ::
  "start_env \<Rightarrow> ('t::zero) live_conversation \<Rightarrow> 't live_conversation" where
  "startSession env s =
     (let s0 = s\<lparr>error := None\<rparr> in
      case newInputContext env of
        Inl e \<Rightarrow> startSession_catch e s0
      | Inr ic \<Rightarrow>
          (let s1 = s0\<lparr>inputAudioContextRef := Some ic\<rparr> in
           case newOutputContext env of
             Inl e \<Rightarrow> startSession_catch e s1
           | Inr oc \<Rightarrow>
               (let s2 = s1\<lparr>outputAudioContextRef := Some oc\<rparr> in
                case getUserMedia env of
                  Inl e \<Rightarrow> startSession_catch e s2
                | Inr tracks \<Rightarrow>
                    s2\<lparr>mediaStreamRef := Some tracks, sessionRef := Some (liveConnect env)\<rparr>)))"

definition onopen :: "'t live_conversation \<Rightarrow> 't live_conversation" where
  "onopen s = s\<lparr>isConnected := True\<rparr>"

definition onclose :: "'t live_conversation \<Rightarrow> 't live_conversation" where
  "onclose s = s\<lparr>isConnected := False\<rparr>"

text \<open>Lines 249-253: the error callback sets the message and the flag, nothing else.\<close>

definition onerror :: "'t live_conversation \<Rightarrow> 't live_conversation" where
  "onerror s = s\<lparr>error := Some ''Connection error occurred.'', isConnected := False\<rparr>"

text \<open>The \<^verbatim>\<open>ended\<close> listener of a buffer source (lines 224-226).\<close>

definition source_ended :: "nat \<Rightarrow> 't live_conversation \<Rightarrow> 't live_conversation" where
  "source_ended x s = s\<lparr>sourcesRef := removeAll x (sourcesRef s)\<rparr>"

subsection \<open>onmessage (lines 188-244)\<close>

text \<open>Lines 190-195: the transcription updates.\<close>

definition handleTranscription ::
  "live_server_message \<Rightarrow> 't live_conversation \<Rightarrow> 't live_conversation" where
  "handleTranscription m s =
     (let s1 = (case msg_outputTranscription m of
                  None \<Rightarrow> s
                | Some t \<Rightarrow>
                    s\<lparr>transcription :=
                        (transcription s)\<lparr>model := model (transcription s) @ js_string_of t\<rparr>\<rparr>)
      in case msg_inputTranscription m of
           None \<Rightarrow> s1
         | Some t \<Rightarrow>
             s1\<lparr>transcription :=
                  (transcription s1)\<lparr>user := user (transcription s1) @ js_string_of t\<rparr>\<rparr>)"

text \<open>Lines 197-204: \<^verbatim>\<open>setTimeout(..., 3000)\<close> at wall-clock time \<open>now\<close>.\<close>

definition handleTurnComplete ::
  "nat \<Rightarrow> live_server_message \<Rightarrow> 't live_conversation \<Rightarrow> 't live_conversation" where
  "handleTurnComplete now m s =
     (if msg_turnComplete m
      then s\<lparr>timeouts := timeouts s @ [(now + 3000, ClearTranscription)]\<rparr>
      else s)"

text \<open>
  Lines 238-243. Every tracked node was started before it was added to the set, and
  \<^verbatim>\<open>stop()\<close> throws only on a node that was never started.
\<close>

definition handleInterruption ::
  "live_server_message \<Rightarrow> ('t::zero) live_conversation \<Rightarrow> 't live_conversation" where
  "handleInterruption m s =
     (if msg_interrupted m
      then s\<lparr>stoppedSources := stoppedSources s \<union> set (sourcesRef s),
             sourcesRef := [],
             nextStartTimeRef := 0,
             transcription := (transcription s)\<lparr>model := []\<rparr>\<rparr>
      else s)"

text \<open>
  How far an invocation gets before it first yields: it ends with an exception, it
  returns, or it is suspended at the \<^verbatim>\<open>await\<close> of line 213 holding a payload.
\<close>

datatype progress = Threw thrown | Returned | Awaiting string

text \<open>
  Lines 189-213, the synchronous part of the handler. \<open>clock\<close> is \<^verbatim>\<open>ctx.currentTime\<close>
  and \<open>now\<close> the wall clock at the arrival. State written before an exception stays
  written. Without a payload, or without a playback context, the invocation runs on
  through the interruption branch and returns; otherwise it moves the cursor (line 210)
  and is suspended.
\<close>

definition onmessage_sync ::
  "'t \<Rightarrow> nat \<Rightarrow> live_server_message \<Rightarrow>
   ('t::{linorder,plus,zero}) live_conversation \<Rightarrow> progress \<times> 't live_conversation" where
  "onmessage_sync clock now m s =
     (let s1 = handleTurnComplete now m (handleTranscription m s) in
      case base64Audio_of m of
        Inl e \<Rightarrow> (Threw e, s1)
      | Inr base64Audio \<Rightarrow>
          (case base64Audio of
             None \<Rightarrow> (Returned, handleInterruption m s1)
           | Some b \<Rightarrow>
               if b \<noteq> [] \<and> outputAudioContextRef s1 \<noteq> None
               then (Awaiting b, s1\<lparr>nextStartTimeRef := max (nextStartTimeRef s1) clock\<rparr>)
               else (Returned, handleInterruption m s1)))"

text \<open>
  Lines 213-243, the rest of a suspended invocation \<open>p\<close>, run when its decoding has
  settled. \<open>decodeAudioData\<close> stands for \<^verbatim>\<open>decodeAudioData(decode(base64Audio), ...)\<close> of
  the absent \<^verbatim>\<open>utils/audioUtils\<close>: the duration of the decoded buffer, or \<open>None\<close> when
  decoding throws (the catch block drops the payload). \<open>clock\<close> is \<^verbatim>\<open>ctx.currentTime\<close>
  at that moment. Lines 228-230 read the cursor and the set as they are now, not as they
  were at the arrival; the context used is the one captured on line 209. The new source
  node is numbered by the count of nodes started so far; \<^verbatim>\<open>source.start\<close> is the entry
  appended to \<open>started\<close>.
\<close>

definition onmessage_resume ::
  "(string \<Rightarrow> 't option) \<Rightarrow> 't \<Rightarrow> 't pending_decode \<Rightarrow>
   ('t::{linorder,plus,zero}) live_conversation \<Rightarrow> 't live_conversation" where
  "onmessage_resume decodeAudioData clock p s =
     handleInterruption (pendingMessage p)
       (case decodeAudioData (payload p) of
          None \<Rightarrow> s
        | Some d \<Rightarrow>
            (let src = length (started s) in
             s\<lparr>started := started s @
                  [\<lparr>sourceNode = src, startWhen = nextStartTimeRef s, bufferDuration = d,
                    clockThen = clockRead p, clockAtStart = clock\<rparr>],
               nextStartTimeRef := nextStartTimeRef s + d,
               sourcesRef := set_add src (sourcesRef s)\<rparr>))"

text \<open>
  The two things that happen to the handler: a message arrives, or the decoding awaited
  by the \<open>k\<close>-th suspended invocation settles. Decodings may settle in any order and
  other events may come in between.
\<close>

definition arrive ::
  "'t \<Rightarrow> nat \<Rightarrow> live_server_message \<Rightarrow>
   ('t::{linorder,plus,zero}) live_conversation \<Rightarrow> 't live_conversation" where
  "arrive clock now m s =
     (case onmessage_sync clock now m s of
        (Awaiting b, s1) \<Rightarrow>
          s1\<lparr>pending := pending s1 @ [\<lparr>payload = b, pendingMessage = m, clockRead = clock\<rparr>]\<rparr>
      | (_, s1) \<Rightarrow> s1)"

definition decode_done ::
  "(string \<Rightarrow> 't option) \<Rightarrow> nat \<Rightarrow> 't \<Rightarrow>
   ('t::{linorder,plus,zero}) live_conversation \<Rightarrow> 't live_conversation" where
  "decode_done decodeAudioData k clock s =
     (if k < length (pending s)
      then onmessage_resume decodeAudioData clock (pending s ! k)
             (s\<lparr>pending := take k (pending s) @ drop (Suc k) (pending s)\<rparr>)
      else s)"

datatype 't handler_event = Arrive 't nat live_server_message | DecodeDone nat 't

fun step ::
  "(string \<Rightarrow> 't option) \<Rightarrow> 't handler_event \<Rightarrow>
   ('t::{linorder,plus,zero}) live_conversation \<Rightarrow> 't live_conversation" where
  "step decodeAudioData (Arrive clock now m) s = arrive clock now m s"
| "step decodeAudioData (DecodeDone k clock) s = decode_done decodeAudioData k clock s"

fun run_events ::
  "(string \<Rightarrow> 't option) \<Rightarrow> 't handler_event list \<Rightarrow>
   ('t::{linorder,plus,zero}) live_conversation \<Rightarrow> 't live_conversation" where
  "run_events decodeAudioData [] s = s"
| "run_events decodeAudioData (ev # evs) s =
     run_events decodeAudioData evs (step decodeAudioData ev s)"


text \<open>The timer queue: at wall-clock time \<open>t\<close> every callback that is due runs once.\<close>

fun fire :: "timer_action \<Rightarrow> 't live_conversation \<Rightarrow> 't live_conversation" where
  "fire ClearTranscription s = s\<lparr>transcription := \<lparr>user = [], model = []\<rparr>\<rparr>"


subsection \<open>What the scheduler promises about the started buffers\<close>




text \<open>The buffers a run starts: what it appends to the log of started nodes.\<close>

definition scheduled_by ::
  "(string \<Rightarrow> 't option) \<Rightarrow> 't handler_event list \<Rightarrow>
   ('t::{linorder,plus,zero}) live_conversation \<Rightarrow> 't scheduled_source list" where
  "scheduled_by decodeAudioData evs s =
     drop (length (started s)) (started (run_events decodeAudioData evs s))"



section \<open>VeoAnimator (VeoAnimator.tsx, first document)\<close>

subsection \<open>The long-running video operation\<close>

record upload_file =
  fileName :: string
  fileType :: string

record video_ref =
  uri :: "string option"

record generated_video =
  video :: "video_ref option"

record videos_response =
  generatedVideos :: "generated_video list option"

record operation_error =
  errorMessage :: "string option"

record videos_operation =
  opDone :: bool
  opError :: "operation_error option"
  opResponse :: "videos_response option"

text \<open>Line 73: \<^verbatim>\<open>operation.response?.generatedVideos?.[0]?.video?.uri\<close>.\<close>

definition downloadLink_of :: "videos_operation \<Rightarrow> string option" where
  "downloadLink_of operation =
     (case opResponse operation of
        None \<Rightarrow> None
      | Some r \<Rightarrow>
          (case generatedVideos r of
             None \<Rightarrow> None
           | Some [] \<Rightarrow> None
           | Some (g # _) \<Rightarrow> (case video g of None \<Rightarrow> None | Some v \<Rightarrow> uri v)))"

record videos_request =
  reqModel :: string
  reqPrompt :: string
  imageBytes :: string
  imageMimeType :: string
  numberOfVideos :: nat
  resolution :: string
  aspectRatio :: string

subsection \<open>The panel, the services it calls, and the calls it makes\<close>

text \<open>The state variable \<^verbatim>\<open>file\<close> is \<open>veoFile\<close> here (\<open>file\<close> is reserved in Isabelle).\<close>

record veo_animator =
  veoFile :: "upload_file option"
  prompt :: string
  videoUrl :: "string option"
  isLoading :: bool
  status :: string
  veoError :: "string option"

text \<open>
  The answers of the outside world. \<open>getVideosOperation env i\<close> is the job's \<open>i\<close>-th status
  report (counted from 0); \<open>fetchBlob\<close> is \<^verbatim>\<open>fetch(url)\<close> followed by \<^verbatim>\<open>.blob()\<close>.
\<close>

record veo_env =
  hasSelectedApiKey :: "thrown + bool"
  openSelectKey :: "thrown + unit"
  API_KEY :: "string option"
  newGoogleGenAI :: "string \<Rightarrow> thrown + unit"
  blobToBase64 :: "upload_file \<Rightarrow> thrown + string"
  generateVideos :: "videos_request \<Rightarrow> thrown + videos_operation"
  getVideosOperation :: "nat \<Rightarrow> thrown + videos_operation"
  fetchBlob :: "string \<Rightarrow> thrown + nat"
  createObjectURL :: "nat \<Rightarrow> string"

datatype veo_call =
    HasSelectedApiKey
  | OpenSelectKey
  | BlobToBase64 upload_file
  | GenerateVideos videos_request
  | Sleep nat
  | GetVideosOperation videos_operation
  | Fetch string
  | CreateObjectURL nat

fun is_status_fetch :: "veo_call \<Rightarrow> bool" where
  "is_status_fetch (GetVideosOperation _) = True"
| "is_status_fetch _ = False"

definition status_fetches :: "veo_call list \<Rightarrow> nat" where
  "status_fetches tr = length (filter is_status_fetch tr)"

fun sleeps :: "veo_call list \<Rightarrow> nat list" where
  "sleeps [] = []"
| "sleeps (Sleep ms # tr) = ms # sleeps tr"
| "sleeps (_ # tr) = sleeps tr"

subsection \<open>handleGenerate (lines 23-95)\<close>

text \<open>Lines 26-28, after the guard.\<close>

definition begin_generate :: "veo_animator \<Rightarrow> veo_animator" where
  "begin_generate s =
     s\<lparr>veoError := None, isLoading := True, status := ''Checking API Key permissions...''\<rparr>"

text \<open>Lines 33-37: the key check; the result is the exception, if one was raised.\<close>

definition ensure_key :: "veo_env \<Rightarrow> veo_animator \<Rightarrow> thrown option \<times> veo_animator \<times> veo_call list" where
  "ensure_key env s =
     (case hasSelectedApiKey env of
        Inl e \<Rightarrow> (Some e, s, [HasSelectedApiKey])
      | Inr hasKey \<Rightarrow>
          if hasKey then (None, s, [HasSelectedApiKey])
          else (let s1 = s\<lparr>status := ''Waiting for API Key selection...''\<rparr> in
                case openSelectKey env of
                  Inl e \<Rightarrow> (Some e, s1, [HasSelectedApiKey, OpenSelectKey])
                | Inr _ \<Rightarrow> (None, s1, [HasSelectedApiKey, OpenSelectKey])))"

definition videos_request_of :: "veo_animator \<Rightarrow> upload_file \<Rightarrow> string \<Rightarrow> videos_request" where
  "videos_request_of s f base64Data =
     \<lparr>reqModel = ''veo-3.1-fast-generate-preview'',
      reqPrompt = js_or (prompt s) ''Animate this naturally'',
      imageBytes = base64Data, imageMimeType = fileType f,
      numberOfVideos = 1, resolution = ''720p'', aspectRatio = ''16:9''\<rparr>"

text \<open>Lines 33-61: from the key check to the submitted job.\<close>

definition submit ::
  "veo_env \<Rightarrow> upload_file \<Rightarrow> veo_animator \<Rightarrow>
   (thrown + videos_operation) \<times> veo_animator \<times> veo_call list" where
  "submit env f s =
     (case ensure_key env s of
        (Some e, s1, tr1) \<Rightarrow> (Inl e, s1, tr1)
      | (None, s1, tr1) \<Rightarrow>
          (case newGoogleGenAI env (js_or_opt (API_KEY env) []) of
             Inl e \<Rightarrow> (Inl e, s1, tr1)
           | Inr _ \<Rightarrow>
               (let s2 = s1\<lparr>status := ''Uploading and processing image...''\<rparr>;
                    tr2 = tr1 @ [BlobToBase64 f] in
                case blobToBase64 env f of
                  Inl e \<Rightarrow> (Inl e, s2, tr2)
                | Inr base64Data \<Rightarrow>
                    (let s3 = s2\<lparr>status := ''Initializing generation (this may take a minute)...''\<rparr>;
                         req = videos_request_of s f base64Data;
                         tr3 = tr2 @ [GenerateVideos req] in
                     case generateVideos env req of
                       Inl e \<Rightarrow> (Inl e, s3, tr3)
                     | Inr operation \<Rightarrow>
                         (Inr operation, s3\<lparr>status := ''Generating video frames...''\<rparr>, tr3)))))"

text \<open>
  Lines 63-66: the polling loop. \<open>fetched\<close> lists the handles passed to
  \<^verbatim>\<open>getVideosOperation\<close> so far. There is no counter and no deadline in the source, hence
  none here; a job that never completes leaves the loop without a value.
\<close>

partial_function (option) poll ::
  "(nat \<Rightarrow> thrown + videos_operation) \<Rightarrow> videos_operation list \<Rightarrow> videos_operation \<Rightarrow>
   ((thrown + videos_operation) \<times> videos_operation list) option" where
  "poll report fetched operation =
     (if opDone operation then Some (Inr operation, fetched)
      else (case report (length fetched) of
              Inl e \<Rightarrow> Some (Inl e, fetched @ [operation])
            | Inr operation' \<Rightarrow> poll report (fetched @ [operation]) operation'))"

definition poll_trace :: "videos_operation list \<Rightarrow> veo_call list" where
  "poll_trace fetched = concat (map (\<lambda>h. [Sleep 5000, GetVideosOperation h]) fetched)"

text \<open>Lines 68-82: from the terminal operation to the local video URL.\<close>

definition finish ::
  "veo_env \<Rightarrow> videos_operation \<Rightarrow> veo_animator \<Rightarrow> thrown option \<times> veo_animator \<times> veo_call list" where
  "finish env operation s =
     (case opError operation of
        Some err \<Rightarrow> (Some (JsError (js_or_opt (errorMessage err) ''Unknown generation error'')), s, [])
      | None \<Rightarrow>
          (case downloadLink_of operation of
             None \<Rightarrow> (Some (JsError ''No video URI returned.''), s, [])
           | Some downloadLink \<Rightarrow>
               if downloadLink = [] then (Some (JsError ''No video URI returned.''), s, [])
               else (let s1 = s\<lparr>status := ''Fetching final video...''\<rparr>;
                         url = downloadLink @ ''&key='' @ js_string_of (API_KEY env) in
                     case fetchBlob env url of
                       Inl e \<Rightarrow> (Some e, s1, [Fetch url])
                     | Inr videoBlob \<Rightarrow>
                         (None, s1\<lparr>videoUrl := Some (createObjectURL env videoBlob)\<rparr>,
                          [Fetch url, CreateObjectURL videoBlob]))))"

text \<open>Lines 84-90 and 91-94.\<close>

definition catch_block :: "thrown \<Rightarrow> veo_animator \<Rightarrow> veo_animator" where
  "catch_block e s =
     (if message e \<noteq> [] \<and> sublist ''Requested entity was not found'' (message e)
      then s\<lparr>veoError := Some ''Session expired or key invalid. Please try again to select a key.''\<rparr>
      else s\<lparr>veoError := Some (js_or (message e) ''An error occurred during video generation.'')\<rparr>)"

definition finally_block :: "veo_animator \<Rightarrow> veo_animator" where
  "finally_block s = s\<lparr>isLoading := False, status := []\<rparr>"

definition settle :: "thrown option \<Rightarrow> veo_animator \<Rightarrow> veo_animator" where
  "settle r s = finally_block (case r of None \<Rightarrow> s | Some e \<Rightarrow> catch_block e s)"

definition handleGenerate :: "veo_env \<Rightarrow> veo_animator \<Rightarrow> (veo_animator \<times> veo_call list) option" where
  "handleGenerate env s =
     (case veoFile s of
        None \<Rightarrow> Some (s, [])
      | Some f \<Rightarrow>
          (case submit env f (begin_generate s) of
             (Inl e, s1, tr) \<Rightarrow> Some (settle (Some e) s1, tr)
           | (Inr operation, s1, tr) \<Rightarrow>
               (case poll (getVideosOperation env) [] operation of
                  None \<Rightarrow> None
                | Some (Inl e, fetched) \<Rightarrow> Some (settle (Some e) s1, tr @ poll_trace fetched)
                | Some (Inr done_op, fetched) \<Rightarrow>
                    (case finish env done_op s1 of
                       (r, s2, tr2) \<Rightarrow> Some (settle r s2, tr @ poll_trace fetched @ tr2)))))"

section \<open>ImageEditor (VeoAnimator.tsx, second document)\<close>

record candidate =
  candidateContent :: "content option"

record content_response =
  candidates :: "candidate list option"

record edit_request =
  editModel :: string
  editImageData :: string
  editImageMimeType :: string
  editText :: string

text \<open>The state variables \<^verbatim>\<open>file\<close> and \<^verbatim>\<open>prompt\<close> are \<open>imgFile\<close> and \<open>imgPrompt\<close> here.\<close>

record image_editor =
  imgFile :: "upload_file option"
  imgPrompt :: string
  resultImage :: "string option"
  loading :: bool

record image_env =
  imgNewGoogleGenAI :: "thrown + unit"
  imgBlobToBase64 :: "upload_file \<Rightarrow> thrown + string"
  generateContent :: "edit_request \<Rightarrow> thrown + content_response"

datatype image_effect =
    ImgBlobToBase64 upload_file
  | GenerateContent edit_request
  | ConsoleWarn string
  | Alert string

text \<open>Line 234: \<^verbatim>\<open>response.candidates?.[0]?.content?.parts\<close>.\<close>

definition response_parts :: "content_response \<Rightarrow> part list option" where
  "response_parts r =
     (case candidates r of
        None \<Rightarrow> None
      | Some [] \<Rightarrow> None
      | Some (c # _) \<Rightarrow> (case candidateContent c of None \<Rightarrow> None | Some ct \<Rightarrow> parts ct))"

text \<open>Lines 236-242: the first part with inline data becomes the result; the loop breaks.\<close>

fun first_inline_image :: "part list \<Rightarrow> string option" where
  "first_inline_image [] = None"
| "first_inline_image (p # ps) =
     (case inlineData p of
        Some d \<Rightarrow> Some (''data:image/png;base64,'' @ js_string_of (data d))
      | None \<Rightarrow> first_inline_image ps)"

text \<open>
  Lines 234-248. \<open>shown\<close> is the \<^verbatim>\<open>resultImage\<close> the handler's closure captured when the
  panel was last rendered; line 245 reads that value, not the one just set.
\<close>

definition extract_image ::
  "string option \<Rightarrow> content_response \<Rightarrow> image_editor \<Rightarrow> image_editor \<times> image_effect list" where
  "extract_image shown r s =
     (let ps = response_parts r;
          s1 = (case ps of
                  None \<Rightarrow> s
                | Some l \<Rightarrow>
                    (case first_inline_image l of
                       None \<Rightarrow> s
                     | Some imgUrl \<Rightarrow> s\<lparr>resultImage := Some imgUrl\<rparr>));
          some_inline = (case ps of None \<Rightarrow> False | Some l \<Rightarrow> list_ex (\<lambda>p. inlineData p \<noteq> None) l)
      in (s1, if (shown = None \<or> shown = Some []) \<and> \<not> some_inline
              then [ConsoleWarn ''No image returned''] else []))"

text \<open>
  Lines 215-248, the try block: the first component of the result is the exception that
  ended it, if any.
\<close>

definition edit_request_of :: "image_editor \<Rightarrow> upload_file \<Rightarrow> string \<Rightarrow> edit_request" where
  "edit_request_of s f base64Data =
     \<lparr>editModel = ''gemini-2.5-flash-image'', editImageData = base64Data,
      editImageMimeType = fileType f, editText = imgPrompt s\<rparr>"

definition edit_try ::
  "image_env \<Rightarrow> upload_file \<Rightarrow> image_editor \<Rightarrow> image_editor \<Rightarrow>
   thrown option \<times> image_editor \<times> image_effect list" where
  "edit_try env f s s1 =
     (case imgNewGoogleGenAI env of
        Inl e \<Rightarrow> (Some e, s1, [])
      | Inr _ \<Rightarrow>
          (case imgBlobToBase64 env f of
             Inl e \<Rightarrow> (Some e, s1, [ImgBlobToBase64 f])
           | Inr base64Data \<Rightarrow>
               (let req = edit_request_of s f base64Data;
                    tr = [ImgBlobToBase64 f, GenerateContent req] in
                case generateContent env req of
                  Inl e \<Rightarrow> (Some e, s1, tr)
                | Inr r \<Rightarrow>
                    (case extract_image (resultImage s) r s1 of
                       (s2, warn) \<Rightarrow> (None, s2, tr @ warn)))))"

text \<open>
  Lines 208-256. The catch block swallows whatever the try block raised and alerts;
  the finally block clears the loading flag. Nothing escapes the handler.
\<close>

definition handleEdit :: "image_env \<Rightarrow> image_editor \<Rightarrow> image_editor \<times> image_effect list" where
  "handleEdit env s =
     (case imgFile s of
        None \<Rightarrow> (s, [])
      | Some f \<Rightarrow>
          if imgPrompt s = [] then (s, [])
          else (case edit_try env f s (s\<lparr>loading := True, resultImage := None\<rparr>) of
                  (None, s2, tr) \<Rightarrow> (s2\<lparr>loading := False\<rparr>, tr)
                | (Some e, s2, tr) \<Rightarrow> (s2\<lparr>loading := False\<rparr>, tr @ [Alert ''Failed to edit image''])))"

text \<open>A response without any inline-image part, wherever its optional chain ends.\<close>

definition no_inline_image :: "content_response \<Rightarrow> bool" where
  "no_inline_image r =
     (case response_parts r of None \<Rightarrow> True | Some l \<Rightarrow> list_all (\<lambda>p. inlineData p = None) l)"

section \<open>SearchQuery (Navigation.tsx, second document)\<close>

record grounding_chunk =
  webUri :: string
  webTitle :: string

record search_result =
  resultText :: "string option"
  resultChunks :: "grounding_chunk list option"

record search_query =
  query :: string
  response :: string
  groundingChunks :: "grounding_chunk list"
  searchLoading :: bool

record search_env =
  searchNewGoogleGenAI :: "thrown + unit"
  searchGenerateContent :: "string \<Rightarrow> thrown + search_result"

datatype search_effect =
    PreventDefault
  | SearchGenerateContent string

text \<open>
  \<^verbatim>\<open>String.prototype.trim\<close> on code units below 256: tab, line feed, vertical tab, form
  feed, carriage return, space and no-break space are white space.
\<close>

definition js_whitespace :: "char \<Rightarrow> bool" where
  "js_whitespace c = (of_char c \<in> {9, 10, 11, 12, 13, 32, 160 :: nat})"

definition trim :: "string \<Rightarrow> string" where
  "trim q = rev (dropWhile js_whitespace (rev (dropWhile js_whitespace q)))"

text \<open>
  Lines 73-101. \<open>resultChunks\<close> stands for the chain
  \<^verbatim>\<open>result.candidates?.[0]?.groundingMetadata?.groundingChunks\<close>.
\<close>

definition handleSearch :: "search_env \<Rightarrow> search_query \<Rightarrow> search_query \<times> search_effect list" where
  "handleSearch env s =
     (if trim (query s) = [] then (s, [PreventDefault])
      else (let s1 = s\<lparr>searchLoading := True, response := [], groundingChunks := []\<rparr>;
                failed = (\<lambda>e tr. (s1\<lparr>response := ''Error: '' @ message e, searchLoading := False\<rparr>, tr))
            in case searchNewGoogleGenAI env of
                 Inl e \<Rightarrow> failed e [PreventDefault]
               | Inr _ \<Rightarrow>
                   (let tr = [PreventDefault, SearchGenerateContent (query s)] in
                    case searchGenerateContent env (query s) of
                      Inl e \<Rightarrow> failed e tr
                    | Inr result \<Rightarrow>
                        (s1\<lparr>response := js_or_opt (resultText result) ''No response generated.'',
                            groundingChunks := (case resultChunks result of None \<Rightarrow> [] | Some cs \<Rightarrow> cs),
                            searchLoading := False\<rparr>, tr))))"

section \<open>Sample inputs\<close>

text \<open>Concrete messages, states and mocked services on which the results below are run.\<close>

definition sample_audio_message :: "string \<Rightarrow> live_server_message" where
  "sample_audio_message b =
     \<lparr>serverContent = Some
        \<lparr>outputTranscription = None, inputTranscription = None, turnComplete = False,
         modelTurn = Some \<lparr>parts = Some [\<lparr>inlineData = Some \<lparr>data = Some b, mimeType = Some ''audio/pcm''\<rparr>,
                                          partText = None\<rparr>]\<rparr>,
         interrupted = False\<rparr>\<rparr>"

definition sample_flag_message :: "bool \<Rightarrow> bool \<Rightarrow> live_server_message" where
  "sample_flag_message turn_complete interrupt =
     \<lparr>serverContent = Some
        \<lparr>outputTranscription = None, inputTranscription = None, turnComplete = turn_complete,
         modelTurn = None, interrupted = interrupt\<rparr>\<rparr>"

text \<open>An interruption whose model turn has no parts array.\<close>

definition sample_partless_interrupt :: live_server_message where
  "sample_partless_interrupt =
     \<lparr>serverContent = Some
        \<lparr>outputTranscription = None, inputTranscription = None, turnComplete = False,
         modelTurn = Some \<lparr>parts = None\<rparr>, interrupted = True\<rparr>\<rparr>"

definition sample_decoder :: "string \<Rightarrow> real option" where
  "sample_decoder b = (if b = ''AAAA'' then Some 2 else if b = ''BBBB'' then Some 3 else None)"

definition sample_live :: "real live_conversation" where
  "sample_live =
     \<lparr>isConnected = True, error = None, transcription = \<lparr>user = ''hola'', model = ''bien''\<rparr>,
      inputAudioContextRef = Some 0, outputAudioContextRef = Some 1, mediaStreamRef = Some [0],
      sessionRef = Some 0, sourcesRef = [0, 1], nextStartTimeRef = 2,
      stoppedTracks = {}, closedContexts = {}, stoppedSources = {},
      started = [\<lparr>sourceNode = 0, startWhen = 0, bufferDuration = 1, clockThen = 0,
                   clockAtStart = 0\<rparr>,
                 \<lparr>sourceNode = 1, startWhen = 1, bufferDuration = 1, clockThen = 1 / 2,
                   clockAtStart = 1 / 2\<rparr>],
      timeouts = [], pending = []\<rparr>"

definition sample_file :: upload_file where
  "sample_file = \<lparr>fileName = ''cat.png'', fileType = ''image/png''\<rparr>"

definition pending_operation :: videos_operation where
  "pending_operation = \<lparr>opDone = False, opError = None, opResponse = None\<rparr>"

definition finished_operation :: "string \<Rightarrow> videos_operation" where
  "finished_operation link =
     \<lparr>opDone = True, opError = None,
      opResponse = Some \<lparr>generatedVideos = Some [\<lparr>video = Some \<lparr>uri = Some link\<rparr>\<rparr>]\<rparr>\<rparr>"

definition failed_operation :: "string \<Rightarrow> videos_operation" where
  "failed_operation msg =
     \<lparr>opDone = True, opError = Some \<lparr>errorMessage = Some msg\<rparr>, opResponse = None\<rparr>"

text \<open>A mocked job: \<open>k\<close> pending status reports, then \<open>final\<close> for ever.\<close>

definition reports_after :: "nat \<Rightarrow> videos_operation \<Rightarrow> nat \<Rightarrow> thrown + videos_operation" where
  "reports_after k final i = (if i < k then Inr pending_operation else Inr final)"

definition mock_veo_env :: "(nat \<Rightarrow> thrown + videos_operation) \<Rightarrow> veo_env" where
  "mock_veo_env reports =
     \<lparr>hasSelectedApiKey = Inr True, openSelectKey = Inr (), API_KEY = Some ''KEY'',
      newGoogleGenAI = (\<lambda>_. Inr ()), blobToBase64 = (\<lambda>_. Inr ''QUJD''),
      generateVideos = (\<lambda>_. Inr pending_operation), getVideosOperation = reports,
      fetchBlob = (\<lambda>_. Inr 7), createObjectURL = (\<lambda>_. ''blob:video'')\<rparr>"

definition sample_veo :: veo_animator where
  "sample_veo =
     \<lparr>veoFile = Some sample_file, prompt = [], videoUrl = None, isLoading = False,
      status = [], veoError = None\<rparr>"

definition text_only_response :: content_response where
  "text_only_response =
     \<lparr>candidates = Some [\<lparr>candidateContent = Some
        \<lparr>parts = Some [\<lparr>inlineData = None, partText = Some ''I cannot edit this image.''\<rparr>]\<rparr>\<rparr>]\<rparr>"

definition mock_image_env :: "content_response \<Rightarrow> image_env" where
  "mock_image_env r =
     \<lparr>imgNewGoogleGenAI = Inr (), imgBlobToBase64 = (\<lambda>_. Inr ''QUJD''),
      generateContent = (\<lambda>_. Inr r)\<rparr>"

definition sample_editor :: "string \<Rightarrow> image_editor" where
  "sample_editor p =
     \<lparr>imgFile = Some sample_file, imgPrompt = p, resultImage = None, loading = False\<rparr>"

definition mock_search_env :: search_env where
  "mock_search_env =
     \<lparr>searchNewGoogleGenAI = Inr (),
      searchGenerateContent = (\<lambda>_. Inr \<lparr>resultText = Some ''ok'', resultChunks = None\<rparr>)\<rparr>"

definition sample_search :: "string \<Rightarrow> search_query" where
  "sample_search q = \<lparr>query = q, response = [], groundingChunks = [], searchLoading = False\<rparr>"

section \<open>The playback scheduler\<close>

lemma handleTranscription_frame [simp]:
  "started (handleTranscription m s) = started s"
  "nextStartTimeRef (handleTranscription m s) = nextStartTimeRef s"
  "outputAudioContextRef (handleTranscription m s) = outputAudioContextRef s"
  "sourcesRef (handleTranscription m s) = sourcesRef s"
  "stoppedSources (handleTranscription m s) = stoppedSources s"
  "pending (handleTranscription m s) = pending s"
  "timeouts (handleTranscription m s) = timeouts s"
  "isConnected (handleTranscription m s) = isConnected s"
  by (simp_all add: handleTranscription_def Let_def split: option.splits)

lemma handleTurnComplete_frame [simp]:
  "started (handleTurnComplete now m s) = started s"
  "nextStartTimeRef (handleTurnComplete now m s) = nextStartTimeRef s"
  "outputAudioContextRef (handleTurnComplete now m s) = outputAudioContextRef s"
  "sourcesRef (handleTurnComplete now m s) = sourcesRef s"
  "stoppedSources (handleTurnComplete now m s) = stoppedSources s"
  "pending (handleTurnComplete now m s) = pending s"
  "transcription (handleTurnComplete now m s) = transcription s"
  "isConnected (handleTurnComplete now m s) = isConnected s"
  by (simp_all add: handleTurnComplete_def)

lemma handleInterruption_quiet [simp]:
  "\<not> msg_interrupted m \<Longrightarrow> handleInterruption m s = s"
  by (simp add: handleInterruption_def)









lemmas live_eval =
  scheduled_by_def arrive_def decode_done_def onmessage_sync_def onmessage_resume_def Let_def
  handleInterruption_def handleTurnComplete_def handleTranscription_def
  sample_audio_message_def sample_flag_message_def sample_decoder_def sample_live_def
  base64Audio_of_def msg_interrupted_def msg_turnComplete_def msg_outputTranscription_def
  msg_inputTranscription_def set_add_def




section \<open>Interruption\<close>

text \<open>Where the interruption branch is reached, it flushes: the set is empty, every
  source that was tracked is stopped, the cursor is zero.\<close>

lemma handleInterruption_flushes:
  assumes "msg_interrupted m"
  shows "sourcesRef (handleInterruption m s) = [] \<and>
         set (sourcesRef s) \<subseteq> stoppedSources (handleInterruption m s) \<and>
         nextStartTimeRef (handleInterruption m s) = 0"
  using assms by (simp add: handleInterruption_def)

lemma base64Audio_of_parts_missing:
  assumes "serverContent m = Some sc" and "modelTurn sc = Some c" and "parts c = None"
  shows "base64Audio_of m = Inl (JsError ''TypeError'')"
  using assms by (simp add: base64Audio_of_def)

text \<open>A message whose model turn has no parts array ends the handler on line 207, whatever
  its flags: nothing is stopped and the set and the cursor stay as they were.\<close>

lemma onmessage_sync_parts_missing:
  assumes "serverContent m = Some sc" and "modelTurn sc = Some c" and "parts c = None"
  shows "fst (onmessage_sync clock now m s) = Threw (JsError ''TypeError'') \<and>
         sourcesRef (snd (onmessage_sync clock now m s)) = sourcesRef s \<and>
         stoppedSources (snd (onmessage_sync clock now m s)) = stoppedSources s \<and>
         nextStartTimeRef (snd (onmessage_sync clock now m s)) = nextStartTimeRef s"
  by (simp add: onmessage_sync_def Let_def base64Audio_of_parts_missing [OF assms])

text \<open>
  \<^bold>\<open>C2.\<close> The claim is that after the handler has processed a message carrying the
  interrupted flag, the tracked set is empty, every source that was in it is stopped and
  the cursor is zero. For an interruption whose model turn has no parts array, received
  while nodes 0 and 1 are tracked and the cursor stands at 2, the handler ends with a
  TypeError on line 207: nodes 0 and 1 are still tracked, nothing is stopped and the
  cursor is still 2.
\<close>

theorem interruption_lost_on_missing_parts:
  "msg_interrupted sample_partless_interrupt \<and>
   fst (onmessage_sync 3 0 sample_partless_interrupt sample_live) = Threw (JsError ''TypeError'') \<and>
   sourcesRef (snd (onmessage_sync 3 0 sample_partless_interrupt sample_live)) = [0, 1] \<and>
   stoppedSources (snd (onmessage_sync 3 0 sample_partless_interrupt sample_live)) = {} \<and>
   nextStartTimeRef (snd (onmessage_sync 3 0 sample_partless_interrupt sample_live)) = 2 \<and>
   arrive 3 0 sample_partless_interrupt sample_live
     = snd (onmessage_sync 3 0 sample_partless_interrupt sample_live)"
  by (simp add: arrive_def onmessage_sync_def Let_def base64Audio_of_def msg_interrupted_def
      msg_turnComplete_def msg_outputTranscription_def msg_inputTranscription_def
      handleTurnComplete_def handleTranscription_def sample_partless_interrupt_def
      sample_live_def)

section \<open>Teardown\<close>

lemma fire_frame [simp]:
  "outputAudioContextRef (fire a s) = outputAudioContextRef s"
  "sourcesRef (fire a s) = sourcesRef s"
  "isConnected (fire a s) = isConnected s"
  by (cases a; simp)+

lemma fold_fire_frame [simp]:
  "outputAudioContextRef (fold fire as s) = outputAudioContextRef s"
  "sourcesRef (fold fire as s) = sourcesRef s"
  "isConnected (fold fire as s) = isConnected s"
  by (induction as arbitrary: s; simp)+

text \<open>
  \<^bold>\<open>C4.\<close> As amended. Teardown has no throwing branch. After one invocation, from any
  state, the media stream, both audio contexts and the session handle are null; the
  playback set is empty if a playback context was held when teardown was invoked, and is
  otherwise left as it was; a second invocation changes nothing.
\<close>

theorem cleanup_idempotent_releases_all:
  fixes s :: "('t::zero) live_conversation"
  shows "mediaStreamRef (cleanup s) = None \<and> inputAudioContextRef (cleanup s) = None \<and>
         outputAudioContextRef (cleanup s) = None \<and> sessionRef (cleanup s) = None \<and>
         sourcesRef (cleanup s) = (if outputAudioContextRef s = None then sourcesRef s else []) \<and>
         cleanup (cleanup s) = cleanup s"
  by (auto simp: cleanup_def Let_def split: option.splits)

theorem cleanup_idempotent_releases_all_witness:
  "mediaStreamRef (cleanup sample_live) = None \<and>
   inputAudioContextRef (cleanup sample_live) = None \<and>
   outputAudioContextRef (cleanup sample_live) = None \<and>
   sessionRef (cleanup sample_live) = None \<and>
   sourcesRef (cleanup sample_live) = [] \<and>
   cleanup (cleanup sample_live) = cleanup sample_live"
proof -
  have "outputAudioContextRef sample_live \<noteq> None" by (simp add: sample_live_def)
  with cleanup_idempotent_releases_all [of sample_live] show ?thesis by simp
qed

text \<open>
  The claim as stated fails. A payload arrives on the open session and its decoding is
  awaited; the user stops the session; the decoding settles and the suspended invocation
  starts its buffer and adds the node to the set; teardown is invoked again. After that
  invocation, and after one more, node 2 is still in the playback set and was never
  stopped.
\<close>

theorem cleanup_leaves_late_source:
  "sourcesRef (cleanup (decode_done sample_decoder 0 1
      (cleanup (arrive (1 / 2) 100 (sample_audio_message ''AAAA'') sample_live)))) = [2] \<and>
   sourcesRef (cleanup (cleanup (decode_done sample_decoder 0 1
      (cleanup (arrive (1 / 2) 100 (sample_audio_message ''AAAA'') sample_live))))) = [2] \<and>
   2 \<notin> stoppedSources (cleanup (cleanup (decode_done sample_decoder 0 1
      (cleanup (arrive (1 / 2) 100 (sample_audio_message ''AAAA'') sample_live)))))"
  by (simp add: live_eval cleanup_def)

subsection \<open>The error callback\<close>

text \<open>A failure inside \<^verbatim>\<open>startSession\<close> surfaces its message and tears down.\<close>

lemma startSession_failure_tears_down:
  fixes s :: "('t::zero) live_conversation"
  assumes "getUserMedia env = Inl e" and "newInputContext env = Inr ic"
    and "newOutputContext env = Inr oc"
  shows "startSession env s =
         cleanup (s\<lparr>inputAudioContextRef := Some ic, outputAudioContextRef := Some oc,
                   error := Some (js_or (message e) ''Failed to start session'')\<rparr>)"
  using assms by (simp add: startSession_def startSession_catch_def Let_def)

text \<open>The error callback of an open session releases nothing.\<close>

lemma onerror_releases_nothing:
  "mediaStreamRef (onerror s) = mediaStreamRef s \<and>
   inputAudioContextRef (onerror s) = inputAudioContextRef s \<and>
   outputAudioContextRef (onerror s) = outputAudioContextRef s \<and>
   sessionRef (onerror s) = sessionRef s \<and> sourcesRef (onerror s) = sourcesRef s \<and>
   stoppedTracks (onerror s) = stoppedTracks s \<and> stoppedSources (onerror s) = stoppedSources s \<and>
   closedContexts (onerror s) = closedContexts s"
  by (simp add: onerror_def)

text \<open>
  \<^bold>\<open>C3.\<close> The claim is that a transport error on an open session surfaces a message and
  runs the teardown of a user stop. On an open session holding a microphone track, two
  audio contexts, a session handle and two scheduled sources, \<^verbatim>\<open>onerror\<close> sets the message
  and clears the connected flag, but the stream, both contexts, the session handle and the
  sources stay as they were and nothing is stopped or closed; \<^verbatim>\<open>cleanup\<close> on the same state
  releases all of them.
\<close>

theorem onerror_keeps_resources:
  "error (onerror sample_live) = Some ''Connection error occurred.'' \<and>
   \<not> isConnected (onerror sample_live) \<and>
   mediaStreamRef (onerror sample_live) = Some [0] \<and>
   inputAudioContextRef (onerror sample_live) = Some 0 \<and>
   outputAudioContextRef (onerror sample_live) = Some 1 \<and>
   sessionRef (onerror sample_live) = Some 0 \<and>
   sourcesRef (onerror sample_live) = [0, 1] \<and>
   stoppedTracks (onerror sample_live) = {} \<and>
   stoppedSources (onerror sample_live) = {} \<and>
   closedContexts (onerror sample_live) = {} \<and>
   mediaStreamRef (cleanup sample_live) = None \<and>
   stoppedTracks (cleanup sample_live) = {0} \<and>
   stoppedSources (cleanup sample_live) = {0, 1} \<and>
   closedContexts (cleanup sample_live) = {0, 1}"
  by (simp add: onerror_def cleanup_def sample_live_def Let_def insert_commute)

section \<open>Turn completion\<close>






text \<open>The rest of a suspended invocation touches neither the timers nor the connected
  flag nor the user transcript, and the model transcript only when it interrupts.\<close>

lemma onmessage_resume_frame:
  "timeouts (onmessage_resume dec clock p s) = timeouts s \<and>
   isConnected (onmessage_resume dec clock p s) = isConnected s \<and>
   user (transcription (onmessage_resume dec clock p s)) = user (transcription s) \<and>
   (\<not> msg_interrupted (pendingMessage p) \<longrightarrow>
      transcription (onmessage_resume dec clock p s) = transcription s)"
  by (simp add: onmessage_resume_def handleInterruption_def Let_def split: option.splits)




section \<open>The video job\<close>

subsection \<open>The polling loop\<close>

lemma poll_done:
  "opDone operation \<Longrightarrow> poll report fetched operation = Some (Inr operation, fetched)"
  by (subst poll.simps) simp

lemma poll_step:
  "\<not> opDone operation \<Longrightarrow> report (length fetched) = Inr operation' \<Longrightarrow>
   poll report fetched operation = poll report (fetched @ [operation]) operation'"
  by (subst poll.simps) simp

lemma poll_throw:
  "\<not> opDone operation \<Longrightarrow> report (length fetched) = Inl e \<Longrightarrow>
   poll report fetched operation = Some (Inl e, fetched @ [operation])"
  by (subst poll.simps) simp

text \<open>After \<open>k\<close> pending reports and a terminal one, the loop has fetched \<open>k + 1\<close> times.\<close>

lemma poll_pending_then_done:
  assumes "\<forall>i<k. \<exists>p. report (length fetched + i) = Inr p \<and> \<not> opDone p"
    and "report (length fetched + k) = Inr final" and "opDone final" and "\<not> opDone operation"
  shows "\<exists>fs. poll report fetched operation = Some (Inr final, fetched @ fs) \<and> length fs = k + 1"
  using assms
proof (induction k arbitrary: fetched operation)
  case 0
  then have "poll report fetched operation = poll report (fetched @ [operation]) final"
    by (simp add: poll_step)
  with 0 show ?case by (simp add: poll_done)
next
  case (Suc k)
  from Suc.prems(1) obtain p where p: "report (length fetched) = Inr p" "\<not> opDone p"
    by force
  have step: "poll report fetched operation = poll report (fetched @ [operation]) p"
    using Suc.prems(4) p(1) by (rule poll_step)
  have "\<forall>i<k. \<exists>q. report (length (fetched @ [operation]) + i) = Inr q \<and> \<not> opDone q"
  proof (intro allI impI)
    fix i assume "i < k"
    then have "Suc i < Suc k" by simp
    with Suc.prems(1) have "\<exists>q. report (length fetched + Suc i) = Inr q \<and> \<not> opDone q"
      by blast
    then show "\<exists>q. report (length (fetched @ [operation]) + i) = Inr q \<and> \<not> opDone q"
      by simp
  qed
  moreover have "report (length (fetched @ [operation]) + k) = Inr final"
    using Suc.prems(2) by simp
  ultimately obtain fs where
    "poll report (fetched @ [operation]) p = Some (Inr final, (fetched @ [operation]) @ fs)"
    "length fs = k + 1"
    using Suc.IH [of "fetched @ [operation]" p] Suc.prems(3) p(2) by blast
  with step show ?case
    by (intro exI [of _ "operation # fs"]) simp
qed

text \<open>The loop returns only on a terminal operation: while every report is pending it
  has no value.\<close>

lemma poll_returns_only_when_done:
  assumes "poll report fetched operation = Some y"
  shows "(\<forall>i. \<exists>p. report i = Inr p \<and> \<not> opDone p) \<longrightarrow> opDone operation"
proof (rule poll.raw_induct
    [where P = "\<lambda>r f operation y. (\<forall>i. \<exists>p. r i = Inr p \<and> \<not> opDone p) \<longrightarrow> opDone operation",
     OF _ assms])
  fix poll' r f operation y
  assume IH: "\<And>r f operation y. poll' r f operation = Some y \<Longrightarrow>
                (\<forall>i. \<exists>p. r i = Inr p \<and> \<not> opDone p) \<longrightarrow> opDone operation"
    and body: "(if opDone operation then Some (Inr operation, f)
                else case r (length f) of
                       Inl e \<Rightarrow> Some (Inl e, f @ [operation])
                     | Inr operation' \<Rightarrow> poll' r (f @ [operation]) operation') = Some y"
  show "(\<forall>i. \<exists>p. r i = Inr p \<and> \<not> opDone p) \<longrightarrow> opDone operation"
  proof (intro impI, rule ccontr)
    assume all: "\<forall>i. \<exists>p. r i = Inr p \<and> \<not> opDone p" and nd: "\<not> opDone operation"
    from all obtain p where p: "r (length f) = Inr p" "\<not> opDone p" by blast
    from body nd p have "poll' r (f @ [operation]) p = Some y" by simp
    from IH [OF this] all p(2) show False by simp
  qed
qed

lemma poll_never_done:
  assumes "\<forall>i. \<exists>p. report i = Inr p \<and> \<not> opDone p" and "\<not> opDone operation"
  shows "poll report fetched operation = None"
proof (cases "poll report fetched operation")
  case None
  then show ?thesis .
next
  case (Some y)
  from poll_returns_only_when_done [OF this] assms show ?thesis by simp
qed

subsection \<open>Traces and frames\<close>

lemma sleeps_append: "sleeps (a @ b) = sleeps a @ sleeps b"
  by (induction a rule: sleeps.induct) simp_all

lemma status_fetches_append: "status_fetches (a @ b) = status_fetches a + status_fetches b"
  by (simp add: status_fetches_def)

lemma status_fetches_simps [simp]:
  "status_fetches [] = 0"
  "status_fetches (c # tr) = (if is_status_fetch c then 1 else 0) + status_fetches tr"
  by (simp_all add: status_fetches_def)

lemma poll_trace_counts:
  "status_fetches (poll_trace fs) = length fs"
  "sleeps (poll_trace fs) = replicate (length fs) 5000"
  by (induction fs) (simp_all add: poll_trace_def)

lemma ensure_key_frame:
  assumes "ensure_key env s = (r, s1, tr)"
  shows "status_fetches tr = 0 \<and> sleeps tr = [] \<and> veoError s1 = veoError s \<and>
         videoUrl s1 = videoUrl s \<and> isLoading s1 = isLoading s"
  using assms
  by (auto simp: ensure_key_def Let_def split: sum.splits if_splits)

lemma submit_frame:
  assumes "submit env f s = (r, s1, tr)"
  shows "status_fetches tr = 0 \<and> sleeps tr = [] \<and> veoError s1 = veoError s \<and>
         videoUrl s1 = videoUrl s \<and> isLoading s1 = isLoading s"
proof -
  obtain r0 s0 tr0 where ek: "ensure_key env s = (r0, s0, tr0)"
    by (cases "ensure_key env s") auto
  note fr = ensure_key_frame [OF ek]
  show ?thesis
    using assms fr
    by (auto simp: submit_def ek Let_def status_fetches_append sleeps_append
        split: option.splits sum.splits)
qed

lemma settle_flags [simp]: "\<not> isLoading (settle r s)" "status (settle r s) = []"
  by (simp_all add: settle_def finally_block_def catch_block_def split: option.splits)

lemma settle_None [simp]:
  "veoError (settle None s) = veoError s" "videoUrl (settle None s) = videoUrl s"
  by (simp_all add: settle_def finally_block_def)

lemma handleGenerate_terminal:
  assumes "veoFile s = Some f"
    and "submit env f (begin_generate s) = (Inr op0, s1, tr)"
    and "poll (getVideosOperation env) [] op0 = Some (Inr done_op, fetched)"
  shows "handleGenerate env s =
           Some (settle (fst (finish env done_op s1)) (fst (snd (finish env done_op s1))),
                 tr @ poll_trace fetched @ snd (snd (finish env done_op s1)))"
  using assms by (simp add: handleGenerate_def split: prod.splits)

subsection \<open>The mocked job\<close>

lemma sample_submit:
  "submit (mock_veo_env reports) sample_file (begin_generate sample_veo) =
     (Inr pending_operation,
      begin_generate sample_veo\<lparr>status := ''Generating video frames...''\<rparr>,
      [HasSelectedApiKey, BlobToBase64 sample_file,
       GenerateVideos (videos_request_of (begin_generate sample_veo) sample_file ''QUJD'')])"
  by (simp add: submit_def ensure_key_def mock_veo_env_def Let_def)

lemma sample_poll_once:
  assumes "opDone final"
  shows "poll (getVideosOperation (mock_veo_env (reports_after 0 final))) [] pending_operation =
           Some (Inr final, [pending_operation])"
  using assms
  by (simp add: poll_step [where operation' = final] poll_done mock_veo_env_def reports_after_def
      pending_operation_def)

lemma sample_veo_file: "veoFile sample_veo = Some sample_file"
  by (simp add: sample_veo_def)

subsection \<open>Polling until the job is terminal\<close>

text \<open>
  \<^bold>\<open>C5.\<close> Let the job be submitted and its handle come back not done. If the next \<open>k\<close>
  status reports are not done and the one after them is done, without an error and with a
  non-empty result URI, and the download of that URI (with the key appended) succeeds, then
  \<^verbatim>\<open>handleGenerate\<close> returns having issued exactly \<open>k + 1\<close> status fetches, each after a
  wait of 5000 ms, and the panel is settled in success: its video URL is the object URL of
  the blob downloaded from that URI, there is no error, and it is no longer loading. This
  holds for every \<open>k\<close>: nothing bounds the number of rounds. And if every status report is
  not done, \<^verbatim>\<open>handleGenerate\<close> never returns.
\<close>

theorem polling_until_done:
  assumes f: "veoFile s = Some f"
    and sub: "submit env f (begin_generate s) = (Inr op0, s1, tr)"
    and nd: "\<not> opDone op0"
  shows "((\<forall>i<k. \<exists>p. getVideosOperation env i = Inr p \<and> \<not> opDone p) \<and>
          getVideosOperation env k = Inr final \<and> opDone final \<and> opError final = None \<and>
          downloadLink_of final = Some link \<and> link \<noteq> [] \<and>
          fetchBlob env (link @ ''&key='' @ js_string_of (API_KEY env)) = Inr videoBlob
          \<longrightarrow> (\<exists>s' trace. handleGenerate env s = Some (s', trace) \<and>
                  status_fetches trace = k + 1 \<and> sleeps trace = replicate (k + 1) 5000 \<and>
                  Fetch (link @ ''&key='' @ js_string_of (API_KEY env)) \<in> set trace \<and>
                  videoUrl s' = Some (createObjectURL env videoBlob) \<and> veoError s' = None \<and>
                  \<not> isLoading s' \<and> status s' = []))
       \<and> ((\<forall>i. \<exists>p. getVideosOperation env i = Inr p \<and> \<not> opDone p)
          \<longrightarrow> handleGenerate env s = None)"
proof (intro conjI impI)
  assume a: "(\<forall>i<k. \<exists>p. getVideosOperation env i = Inr p \<and> \<not> opDone p) \<and>
          getVideosOperation env k = Inr final \<and> opDone final \<and> opError final = None \<and>
          downloadLink_of final = Some link \<and> link \<noteq> [] \<and>
          fetchBlob env (link @ ''&key='' @ js_string_of (API_KEY env)) = Inr videoBlob"
  let ?url = "link @ ''&key='' @ js_string_of (API_KEY env)"
  let ?s2 = "s1\<lparr>status := ''Fetching final video...'',
                 videoUrl := Some (createObjectURL env videoBlob)\<rparr>"
  from a nd poll_pending_then_done [of k "getVideosOperation env" "[]" final op0]
  obtain fs where fs: "poll (getVideosOperation env) [] op0 = Some (Inr final, fs)"
    "length fs = k + 1"
    by auto
  from submit_frame [OF sub]
  have fr: "status_fetches tr = 0" "sleeps tr = []" "veoError s1 = None"
    by (simp_all add: begin_generate_def)
  from a have fin: "finish env final s1 = (None, ?s2, [Fetch ?url, CreateObjectURL videoBlob])"
    by (simp add: finish_def Let_def)
  have hg: "handleGenerate env s =
      Some (settle None ?s2, tr @ poll_trace fs @ [Fetch ?url, CreateObjectURL videoBlob])"
    by (simp add: handleGenerate_terminal [OF f sub fs(1)] fin)
  show "\<exists>s' trace. handleGenerate env s = Some (s', trace) \<and>
                  status_fetches trace = k + 1 \<and> sleeps trace = replicate (k + 1) 5000 \<and>
                  Fetch ?url \<in> set trace \<and>
                  videoUrl s' = Some (createObjectURL env videoBlob) \<and> veoError s' = None \<and>
                  \<not> isLoading s' \<and> status s' = []"
    unfolding hg using fr fs(2)
    by (simp add: status_fetches_append sleeps_append poll_trace_counts)
next
  assume "\<forall>i. \<exists>p. getVideosOperation env i = Inr p \<and> \<not> opDone p"
  from poll_never_done [OF this nd] have "poll (getVideosOperation env) [] op0 = None" .
  then show "handleGenerate env s = None"
    by (simp add: handleGenerate_def f sub)
qed

text \<open>Two pending reports, then a finished one: three fetches, three waits, success. A
  job whose reports are all pending: no return.\<close>

theorem polling_until_done_witness:
  "map_option (\<lambda>(s', trace). (videoUrl s', veoError s', isLoading s', status s',
                               status_fetches trace, sleeps trace))
     (handleGenerate
        (mock_veo_env (reports_after 2 (finished_operation ''https://v/1?alt=media'')))
        sample_veo)
   = Some (Some ''blob:video'', None, False, [], 3, [5000, 5000, 5000]) \<and>
   handleGenerate (mock_veo_env (reports_after 1 pending_operation)) sample_veo = None"
proof -
  let ?fin = "finished_operation ''https://v/1?alt=media''"
  let ?env = "mock_veo_env (reports_after 2 ?fin)"
  let ?env' = "mock_veo_env (reports_after 1 pending_operation)"
  have nd: "\<not> opDone pending_operation" by (simp add: pending_operation_def)
  have a: "(\<forall>i<2. \<exists>p. getVideosOperation ?env i = Inr p \<and> \<not> opDone p) \<and>
          getVideosOperation ?env 2 = Inr ?fin \<and> opDone ?fin \<and> opError ?fin = None \<and>
          downloadLink_of ?fin = Some ''https://v/1?alt=media'' \<and>
          ''https://v/1?alt=media'' \<noteq> [] \<and>
          fetchBlob ?env (''https://v/1?alt=media'' @ ''&key='' @ js_string_of (API_KEY ?env))
            = Inr 7"
    by (simp add: mock_veo_env_def reports_after_def finished_operation_def pending_operation_def
        downloadLink_of_def)
  have b: "\<forall>i. \<exists>p. getVideosOperation ?env' i = Inr p \<and> \<not> opDone p"
    by (simp add: mock_veo_env_def reports_after_def pending_operation_def)
  from polling_until_done [OF sample_veo_file sample_submit [of "reports_after 2 ?fin"] nd,
      where k = 2 and final = ?fin and link = "''https://v/1?alt=media''" and videoBlob = 7] a
  obtain s' trace where
    "handleGenerate ?env sample_veo = Some (s', trace)" "status_fetches trace = 3"
    "sleeps trace = [5000, 5000, 5000]" "videoUrl s' = Some ''blob:video''" "veoError s' = None"
    "\<not> isLoading s'" "status s' = []"
    by (auto simp: mock_veo_env_def numeral_3_eq_3)
  moreover
  from polling_until_done
    [OF sample_veo_file sample_submit [of "reports_after 1 pending_operation"] nd] b
  have "handleGenerate ?env' sample_veo = None" by blast
  ultimately show ?thesis by simp
qed

subsection \<open>A job that ends in an error\<close>

text \<open>
  \<^bold>\<open>C6.\<close> As amended: when the job reaches terminal completion with an error payload, the
  message the panel shows is the remote message itself exactly when that message is
  non-empty and does not contain \<^verbatim>\<open>Requested entity was not found\<close>; a message that contains
  this phrase is replaced by the session-expired text, and a missing or empty message by
  \<^verbatim>\<open>Unknown generation error\<close>.
\<close>

theorem remote_error_message:
  assumes f: "veoFile s = Some f"
    and sub: "submit env f (begin_generate s) = (Inr op0, s1, tr)"
    and pl: "poll (getVideosOperation env) [] op0 = Some (Inr done_op, fetched)"
    and err: "opError done_op = Some err"
  shows "\<exists>s' trace. handleGenerate env s = Some (s', trace) \<and>
           veoError s' =
             Some (case errorMessage err of
                     None \<Rightarrow> ''Unknown generation error''
                   | Some msg \<Rightarrow>
                       if msg = [] then ''Unknown generation error''
                       else if sublist ''Requested entity was not found'' msg
                       then ''Session expired or key invalid. Please try again to select a key.''
                       else msg)"
proof -
  have fin: "finish env done_op s1 =
      (Some (JsError (js_or_opt (errorMessage err) ''Unknown generation error'')), s1, [])"
    by (simp add: finish_def err)
  have ns: "\<not> sublist ''Requested entity was not found'' ''Unknown generation error''"
    by code_simp
  show ?thesis
    using ns
    by (auto simp: handleGenerate_def f sub pl fin settle_def finally_block_def catch_block_def
        js_or_opt_def js_or_def split: option.splits)
qed

text \<open>The remote message \<^verbatim>\<open>quota exceeded\<close> is shown as it is.\<close>

theorem remote_error_message_witness:
  "map_option (\<lambda>r. veoError (fst r))
     (handleGenerate (mock_veo_env (reports_after 0 (failed_operation ''quota exceeded'')))
        sample_veo)
   = Some (Some ''quota exceeded'')"
proof -
  have d: "opDone (failed_operation ''quota exceeded'')"
    by (simp add: failed_operation_def)
  have sl: "\<not> sublist ''Requested entity was not found'' ''quota exceeded''"
    by code_simp
  have e: "opError (failed_operation ''quota exceeded'')
            = Some \<lparr>errorMessage = Some ''quota exceeded''\<rparr>"
    by (simp add: failed_operation_def)
  from remote_error_message [OF sample_veo_file sample_submit sample_poll_once [OF d] e] sl
  show ?thesis by auto
qed

text \<open>The claim as stated fails: the remote message \<^verbatim>\<open>Requested entity was not found.\<close> is
  not shown; the panel shows the session-expired text instead.\<close>

theorem remote_error_not_verbatim:
  "map_option (\<lambda>r. veoError (fst r))
     (handleGenerate
        (mock_veo_env (reports_after 0 (failed_operation ''Requested entity was not found.'')))
        sample_veo)
   = Some (Some ''Session expired or key invalid. Please try again to select a key.'') \<and>
   map_option (\<lambda>r. veoError (fst r))
     (handleGenerate
        (mock_veo_env (reports_after 0 (failed_operation ''Requested entity was not found.'')))
        sample_veo)
   \<noteq> Some (Some ''Requested entity was not found.'')"
proof -
  have d: "opDone (failed_operation ''Requested entity was not found.'')"
    by (simp add: failed_operation_def)
  have sl: "sublist ''Requested entity was not found'' ''Requested entity was not found.''"
    by code_simp
  note hg = handleGenerate_terminal [OF sample_veo_file sample_submit sample_poll_once [OF d]]
  show ?thesis
    unfolding hg using sl
    by (simp add: finish_def failed_operation_def settle_def finally_block_def catch_block_def
        js_or_opt_def js_or_def)
qed

subsection \<open>The finally block\<close>

text \<open>
  \<^bold>\<open>C9.\<close> Whenever \<^verbatim>\<open>handleGenerate\<close> returns after it has passed its guard (by success,
  by any exception raised in the try block, or by the missing-URI path), the loading flag
  is false and the status string is empty. When the guard returns at once, the state is
  the one it was called in.
\<close>

theorem generate_settles:
  assumes "handleGenerate env s = Some (s', trace)"
  shows "if veoFile s = None then s' = s else \<not> isLoading s' \<and> status s' = []"
  using assms
  by (auto simp: handleGenerate_def split: option.splits prod.splits sum.splits)

text \<open>A job that ends in an error: the panel is not loading and shows no status.\<close>

theorem generate_settles_witness:
  "map_option (\<lambda>r. (isLoading (fst r), status (fst r)))
     (handleGenerate (mock_veo_env (reports_after 0 (failed_operation ''quota exceeded'')))
        sample_veo)
   = Some (False, [])"
proof -
  have d: "opDone (failed_operation ''quota exceeded'')"
    by (simp add: failed_operation_def)
  note hg = handleGenerate_terminal [OF sample_veo_file sample_submit sample_poll_once [OF d]]
  from generate_settles [OF hg] sample_veo_file hg show ?thesis by simp
qed

section \<open>The image editor\<close>

lemma first_inline_image_None:
  "list_all (\<lambda>p. inlineData p = None) l \<Longrightarrow> first_inline_image l = None"
  by (induction l) simp_all

lemma extract_image_no_inline:
  assumes "no_inline_image r"
  shows "fst (extract_image shown r s) = s \<and> Alert a \<notin> set (snd (extract_image shown r s))"
  using assms
  by (auto simp: extract_image_def no_inline_image_def Let_def first_inline_image_None
      split: option.splits)

text \<open>
  \<^bold>\<open>C8.\<close> For any remote response without an inline-image part, \<^verbatim>\<open>handleEdit\<close> (called
  with a file and a non-empty prompt, the client constructed and the file encoded)
  completes its try block without an exception, ends settled (not loading) with the result
  image null, and raises no alert, the panel's only error signal.
\<close>

theorem edit_without_image_settles_empty:
  assumes "imgFile s = Some f" and "imgPrompt s \<noteq> []"
    and "imgNewGoogleGenAI env = Inr u"
    and "imgBlobToBase64 env f = Inr base64Data"
    and "generateContent env (edit_request_of s f base64Data) = Inr r"
    and "no_inline_image r"
  shows "fst (edit_try env f s (s\<lparr>loading := True, resultImage := None\<rparr>)) = None \<and>
         fst (handleEdit env s) = s\<lparr>loading := False, resultImage := None\<rparr> \<and>
         Alert ''Failed to edit image'' \<notin> set (snd (handleEdit env s))"
proof -
  let ?s1 = "s\<lparr>loading := True, resultImage := None\<rparr>"
  obtain s2 warn where ex: "extract_image (resultImage s) r ?s1 = (s2, warn)"
    by (cases "extract_image (resultImage s) r ?s1") auto
  from extract_image_no_inline [OF assms(6), of "resultImage s" ?s1 "''Failed to edit image''"] ex
  have s2: "s2 = ?s1" and w: "Alert ''Failed to edit image'' \<notin> set warn" by simp_all
  have tr: "edit_try env f s ?s1 =
      (None, ?s1, [ImgBlobToBase64 f, GenerateContent (edit_request_of s f base64Data)] @ warn)"
    using assms(3-5) ex s2 by (simp add: edit_try_def Let_def)
  show ?thesis
    using assms(1,2) w by (simp add: handleEdit_def tr)
qed

text \<open>A response that carries only text.\<close>

theorem edit_without_image_settles_empty_witness:
  "fst (edit_try (mock_image_env text_only_response) sample_file (sample_editor ''make it rain'')
          ((sample_editor ''make it rain'')\<lparr>loading := True, resultImage := None\<rparr>)) = None \<and>
   fst (handleEdit (mock_image_env text_only_response) (sample_editor ''make it rain''))
     = \<lparr>imgFile = Some sample_file, imgPrompt = ''make it rain'', resultImage = None,
        loading = False\<rparr> \<and>
   snd (handleEdit (mock_image_env text_only_response) (sample_editor ''make it rain''))
     = [ImgBlobToBase64 sample_file,
        GenerateContent (edit_request_of (sample_editor ''make it rain'') sample_file ''QUJD''),
        ConsoleWarn ''No image returned'']"
proof -
  have h: "imgFile (sample_editor ''make it rain'') = Some sample_file"
    "imgPrompt (sample_editor ''make it rain'') \<noteq> []"
    "imgNewGoogleGenAI (mock_image_env text_only_response) = Inr ()"
    "imgBlobToBase64 (mock_image_env text_only_response) sample_file = Inr ''QUJD''"
    "generateContent (mock_image_env text_only_response)
       (edit_request_of (sample_editor ''make it rain'') sample_file ''QUJD'')
       = Inr text_only_response"
    "no_inline_image text_only_response"
    by (simp_all add: sample_editor_def mock_image_env_def no_inline_image_def response_parts_def
        text_only_response_def)
  have tr: "snd (handleEdit (mock_image_env text_only_response) (sample_editor ''make it rain''))
     = [ImgBlobToBase64 sample_file,
        GenerateContent (edit_request_of (sample_editor ''make it rain'') sample_file ''QUJD''),
        ConsoleWarn ''No image returned'']"
    by (simp add: handleEdit_def edit_try_def extract_image_def response_parts_def Let_def
        sample_editor_def mock_image_env_def text_only_response_def)
  from edit_without_image_settles_empty [OF h] tr show ?thesis
    by (simp add: sample_editor_def)
qed

section \<open>The guards of the three panels\<close>

lemma trim_empty_iff: "trim q = [] \<longleftrightarrow> (\<forall>c\<in>set q. js_whitespace c)"
proof
  assume "trim q = []"
  then have d: "dropWhile js_whitespace (rev (dropWhile js_whitespace q)) = []"
    by (simp add: trim_def)
  show "\<forall>c\<in>set q. js_whitespace c"
  proof (cases "dropWhile js_whitespace q")
    case Nil
    then show ?thesis by (simp add: dropWhile_eq_Nil_conv)
  next
    case (Cons x xs)
    then have "\<not> js_whitespace x" using hd_dropWhile [of js_whitespace q] by simp
    moreover from d have "\<forall>c\<in>set (rev (dropWhile js_whitespace q)). js_whitespace c"
      by (simp only: dropWhile_eq_Nil_conv)
    ultimately show ?thesis using Cons by simp
  qed
next
  assume "\<forall>c\<in>set q. js_whitespace c"
  then have e: "dropWhile js_whitespace q = []" by (simp add: dropWhile_eq_Nil_conv)
  show "trim q = []" unfolding trim_def e by simp
qed

text \<open>
  \<^bold>\<open>C10.\<close> Submitting with the required inputs missing returns at once with the panel
  state unchanged and no call made: the video panel without a file, the image panel
  without a file or with an empty prompt, the search panel with an empty or all-white-space
  query (whose only effect is \<^verbatim>\<open>preventDefault\<close> on the form event).
\<close>

theorem guards_return_untouched:
  "(veoFile v = None \<longrightarrow> handleGenerate venv v = Some (v, [])) \<and>
   (imgFile i = None \<or> imgPrompt i = [] \<longrightarrow> handleEdit ienv i = (i, [])) \<and>
   ((\<forall>c\<in>set (query q). js_whitespace c) \<longrightarrow> handleSearch senv q = (q, [PreventDefault]))"
  by (auto simp: handleGenerate_def handleEdit_def handleSearch_def trim_empty_iff
      split: option.splits)

theorem guards_return_untouched_witness:
  "handleGenerate (mock_veo_env (reports_after 0 pending_operation)) (sample_veo\<lparr>veoFile := None\<rparr>)
     = Some (sample_veo\<lparr>veoFile := None\<rparr>, []) \<and>
   handleEdit (mock_image_env text_only_response) (sample_editor []) = (sample_editor [], []) \<and>
   handleEdit (mock_image_env text_only_response)
      ((sample_editor ''make it rain'')\<lparr>imgFile := None\<rparr>)
     = ((sample_editor ''make it rain'')\<lparr>imgFile := None\<rparr>, []) \<and>
   handleSearch mock_search_env (sample_search ''  '') = (sample_search ''  '', [PreventDefault])"
proof -
  have ws: "\<forall>c\<in>set (query (sample_search ''  '')). js_whitespace c"
    by (simp add: sample_search_def js_whitespace_def)
  have a: "veoFile (sample_veo\<lparr>veoFile := None\<rparr>) = None" by simp
  have b: "imgFile (sample_editor []) = None \<or> imgPrompt (sample_editor []) = []"
    by (simp add: sample_editor_def)
  have c: "imgFile ((sample_editor ''make it rain'')\<lparr>imgFile := None\<rparr>) = None \<or>
           imgPrompt ((sample_editor ''make it rain'')\<lparr>imgFile := None\<rparr>) = []"
    by simp
  from guards_return_untouched [of "sample_veo\<lparr>veoFile := None\<rparr>"
      "mock_veo_env (reports_after 0 pending_operation)" "sample_editor []"
      "mock_image_env text_only_response" "sample_search ''  ''" mock_search_env]
    guards_return_untouched [of "sample_veo\<lparr>veoFile := None\<rparr>"
      "mock_veo_env (reports_after 0 pending_operation)"
      "(sample_editor ''make it rain'')\<lparr>imgFile := None\<rparr>"
      "mock_image_env text_only_response" "sample_search ''  ''" mock_search_env]
    ws a b c
  show ?thesis by blast
qed

end
